theory Spec2Isabelle
  imports Complex_Main "HOL-Library.AList"
begin

section \<open>Values, records and data frames\<close>

text \<open>
  A FeatureRecord is a Python dict from feature names to values that are numeric, boolean or
  null. Python floats are taken as real numbers; \<open>None\<close> and \<open>NaN\<close> are the one
  value \<open>Null\<close> (what pandas' \<open>isna\<close> answers True for). A dict is an association
  list read with \<open>map_of\<close>, so that the keys keep their order.
\<close>

datatype cell = Num real | Bool bool | Null

type_synonym feature_dict = "(string \<times> cell) list"

type_synonym matrix = "cell list list"

datatype py_error =
    ValueError string
  | TypeError string
  | KeyError string
  | IndexError string
  | FileNotFoundError string
  | DatabaseError string

text \<open>
  A pandas DataFrame: the length of its index and its columns in order, each column a list
  of cells.
\<close>

record dataframe =
  nrows :: nat
  columns :: "(string \<times> cell list) list"

definition lookup_cell :: "feature_dict \<Rightarrow> string \<Rightarrow> cell" where
  "lookup_cell r k = (case map_of r k of None \<Rightarrow> Null | Some v \<Rightarrow> v)"

definition first_seen :: "string list \<Rightarrow> string list" where
  "first_seen ks = rev (remdups (rev ks))"

definition batch_keys :: "feature_dict list \<Rightarrow> string list" where
  "batch_keys data = first_seen (concat (map (map fst) data))"

text \<open>\<open>pd.DataFrame(data)\<close> on a list of dicts: one column per key of the batch, in
  the order the keys are first seen, a record without the key giving a null cell.\<close>

definition DataFrame :: "feature_dict list \<Rightarrow> dataframe" where
  "DataFrame data =
     \<lparr> nrows = length data,
       columns = map (\<lambda>k. (k, map (\<lambda>r. lookup_cell r k) data)) (batch_keys data) \<rparr>"

definition has_column :: "dataframe \<Rightarrow> string \<Rightarrow> bool" where
  "has_column df c = (c \<in> set (map fst (columns df)))"

definition get_column :: "dataframe \<Rightarrow> string \<Rightarrow> cell list option" where
  "get_column df c = map_of (columns df) c"

text \<open>\<open>df[c] = v\<close>: replaces the column in place, or appends it.\<close>

definition set_column :: "dataframe \<Rightarrow> string \<Rightarrow> cell list \<Rightarrow> dataframe" where
  "set_column df c v = df\<lparr> columns := AList.update c v (columns df) \<rparr>"

text \<open>\<open>df.values\<close>: the row-major matrix of the frame.\<close>

definition values_of :: "dataframe \<Rightarrow> matrix" where
  "values_of df = map (\<lambda>i. map (\<lambda>(c, v). v ! i) (columns df)) [0..<nrows df]"

section \<open>preprocessing.py\<close>

definition FEATURE_ORDER :: "string list" where
  "FEATURE_ORDER =
     [''hour_of_day'', ''day_of_week'', ''day_of_month'', ''month'',
      ''is_rush_hour'', ''is_weekend'', ''avg_speed_historical'',
      ''avg_congestion_level_encoded'', ''traffic_std_deviation'', ''temperature'',
      ''humidity'', ''wind_speed'', ''rain_probability'', ''weather_condition_encoded'',
      ''is_raining'', ''event_nearby'', ''event_type_encoded'', ''event_distance_km'',
      ''road_type_encoded'', ''lanes'', ''max_speed_kmh'', ''arroyo_nearby'',
      ''arroyo_risk_level_encoded'', ''arroyo_distance_km'']"

definition bool_columns :: "string list" where
  "bool_columns =
     [''is_rush_hour'', ''is_weekend'', ''is_raining'', ''event_nearby'', ''arroyo_nearby'']"

text \<open>
  \<open>Series.astype(int)\<close>: a boolean becomes 0 or 1, a number is truncated towards zero,
  and a null cell makes pandas raise: a ValueError for NaN, a TypeError for None. The two
  nulls being the one value \<open>Null\<close>, the ValueError stands for both.
\<close>

definition trunc :: "real \<Rightarrow> real" where
  "trunc x = (if 0 \<le> x then of_int \<lfloor>x\<rfloor> else of_int \<lceil>x\<rceil>)"

fun astype_int_cell :: "cell \<Rightarrow> cell option" where
  "astype_int_cell (Bool b) = Some (Num (if b then 1 else 0))"
| "astype_int_cell (Num x) = Some (Num (trunc x))"
| "astype_int_cell Null = None"

fun astype_int :: "cell list \<Rightarrow> py_error + cell list" where
  "astype_int [] = Inr []"
| "astype_int (x # xs) =
     (case astype_int_cell x of
        None \<Rightarrow> Inl (ValueError ''cannot convert null to integer'')
      | Some y \<Rightarrow> (case astype_int xs of Inl e \<Rightarrow> Inl e | Inr ys \<Rightarrow> Inr (y # ys)))"

text \<open>The loop over \<open>bool_columns\<close> (lines 63-65).\<close>

fun convert_bool_columns :: "string list \<Rightarrow> dataframe \<Rightarrow> py_error + dataframe" where
  "convert_bool_columns [] df = Inr df"
| "convert_bool_columns (c # cs) df =
     (case get_column df c of
        None \<Rightarrow> convert_bool_columns cs df
      | Some v \<Rightarrow>
          (case astype_int v of
             Inl e \<Rightarrow> Inl e
           | Inr v' \<Rightarrow> convert_bool_columns cs (set_column df c v')))"

text \<open>
  \<open>Series.median()\<close>: the middle of the sorted non-null values (the mean of the two
  middle ones for an even count), NaN when there is none. A boolean counts as 0 or 1.
\<close>

fun cell_to_float :: "cell \<Rightarrow> real option" where
  "cell_to_float (Num x) = Some x"
| "cell_to_float (Bool b) = Some (if b then 1 else 0)"
| "cell_to_float Null = None"

definition median :: "cell list \<Rightarrow> cell" where
  "median col =
     (let xs = sort (List.map_filter cell_to_float col); n = length xs
      in if n = 0 then Null
         else if odd n then Num (xs ! (n div 2))
         else Num ((xs ! (n div 2 - 1) + xs ! (n div 2)) / 2))"

text \<open>\<open>Series.fillna(v)\<close>; filling with NaN leaves the nulls.\<close>

definition fillna :: "cell list \<Rightarrow> cell \<Rightarrow> cell list" where
  "fillna col v = map (\<lambda>x. if x = Null then v else x) col"

text \<open>The table \<open>numeric_fills\<close> (lines 84-100), the median taken from the frame.\<close>

definition numeric_fills :: "dataframe \<Rightarrow> (string \<times> cell) list" where
  "numeric_fills df =
     [(''avg_speed_historical'',
         median (case get_column df ''avg_speed_historical'' of
                   None \<Rightarrow> [Num 50] | Some v \<Rightarrow> v)),
      (''avg_congestion_level_encoded'', Num 0.33),
      (''traffic_std_deviation'', Num 0),
      (''temperature'', Num 30),
      (''humidity'', Num 75),
      (''wind_speed'', Num 15),
      (''rain_probability'', Num 20),
      (''weather_condition_encoded'', Num 1),
      (''event_type_encoded'', Num 0),
      (''event_distance_km'', Num 10),
      (''road_type_encoded'', Num 2),
      (''lanes'', Num 2),
      (''max_speed_kmh'', Num 60),
      (''arroyo_risk_level_encoded'', Num 0),
      (''arroyo_distance_km'', Num 5)]"

text \<open>The loop over the table (lines 102-104).\<close>

fun fill_columns :: "(string \<times> cell) list \<Rightarrow> dataframe \<Rightarrow> dataframe" where
  "fill_columns [] df = df"
| "fill_columns ((c, fill_value) # fills) df =
     (case get_column df c of
        None \<Rightarrow> fill_columns fills df
      | Some v \<Rightarrow> fill_columns fills (set_column df c (fillna v fill_value)))"

definition fill_missing_values :: "dataframe \<Rightarrow> dataframe" where
  "fill_missing_values df = fill_columns (numeric_fills df) df"

text \<open>The loop that adds the missing features as zero columns (lines 71-73).\<close>

fun ensure_features :: "string list \<Rightarrow> dataframe \<Rightarrow> dataframe" where
  "ensure_features [] df = df"
| "ensure_features (f # fs) df =
     (if has_column df f then ensure_features fs df
      else ensure_features fs (set_column df f (replicate (nrows df) (Num 0))))"

text \<open>\<open>df[names]\<close>: the named columns in the order of the names; a KeyError for a
  name the frame does not have.\<close>

fun select_columns :: "dataframe \<Rightarrow> string list \<Rightarrow> py_error + (string \<times> cell list) list" where
  "select_columns df [] = Inr []"
| "select_columns df (f # fs) =
     (case get_column df f of
        None \<Rightarrow> Inl (KeyError f)
      | Some v \<Rightarrow>
          (case select_columns df fs of Inl e \<Rightarrow> Inl e | Inr cs \<Rightarrow> Inr ((f, v) # cs)))"

definition prepare_features :: "feature_dict list \<Rightarrow> py_error + dataframe" where
  "prepare_features data =
     (case convert_bool_columns bool_columns (DataFrame data) of
        Inl e \<Rightarrow> Inl e
      | Inr df1 \<Rightarrow>
          (let df2 = fill_missing_values df1;
               df3 = ensure_features FEATURE_ORDER df2
           in case select_columns df3 FEATURE_ORDER of
                Inl e \<Rightarrow> Inl e
              | Inr cs \<Rightarrow> Inr (df3\<lparr> columns := cs \<rparr>)))"

text \<open>
  The scaler is scikit-learn's StandardScaler, an object of a library: it is taken as the
  function its \<open>transform\<close> method computes, and the library's \<open>fit\<close> is a
  parameter \<open>fit\<close> of the operations that call it, giving the scaler after the call.
\<close>

record scaler =
  sc_transform :: "dataframe \<Rightarrow> matrix"

record FeaturePreprocessor =
  scaler :: scaler
  is_fitted :: bool

type_synonym scaler_fit = "scaler \<Rightarrow> dataframe \<Rightarrow> scaler"

text \<open>
  A method that can assign to \<open>self\<close> takes the preprocessor and gives the result, an
  exception being \<open>Inl\<close>, with the preprocessor after the call.
\<close>

definition fit_scaler ::
  "scaler_fit \<Rightarrow> FeaturePreprocessor \<Rightarrow> dataframe \<Rightarrow> (py_error + unit) \<times> FeaturePreprocessor" where
  "fit_scaler fit self X = (Inr (), self\<lparr> scaler := fit (scaler self) X, is_fitted := True \<rparr>)"

definition transform ::
  "FeaturePreprocessor \<Rightarrow> dataframe \<Rightarrow> (py_error + matrix) \<times> FeaturePreprocessor" where
  "transform self X =
     (if \<not> is_fitted self then (Inr (values_of X), self)
      else (Inr (sc_transform (scaler self) X), self))"

definition fit_transform ::
  "scaler_fit \<Rightarrow> FeaturePreprocessor \<Rightarrow> dataframe \<Rightarrow> (py_error + matrix) \<times> FeaturePreprocessor" where
  "fit_transform fit self X =
     (case fit_scaler fit self X of
        (Inl e, self') \<Rightarrow> (Inl e, self')
      | (Inr _, self') \<Rightarrow> transform self' X)"

definition prepare_training_data ::
  "scaler_fit \<Rightarrow> FeaturePreprocessor \<Rightarrow> feature_dict list
     \<Rightarrow> (py_error + matrix \<times> cell list) \<times> FeaturePreprocessor" where
  "prepare_training_data fit self data =
     (let df = DataFrame data
      in case get_column df ''target_speed_kmh'' of
           None \<Rightarrow> (Inl (ValueError ''Training data must contain target_speed_kmh''), self)
         | Some y \<Rightarrow>
             (case prepare_features data of
                Inl e \<Rightarrow> (Inl e, self)
              | Inr X_df \<Rightarrow>
                  (case fit_transform fit self X_df of
                     (Inl e, self') \<Rightarrow> (Inl e, self')
                   | (Inr X, self') \<Rightarrow> (Inr (X, y), self'))))"

definition prepare_prediction_features ::
  "FeaturePreprocessor \<Rightarrow> feature_dict \<Rightarrow> (py_error + matrix) \<times> FeaturePreprocessor" where
  "prepare_prediction_features self features_dict =
     (case prepare_features [features_dict] of
        Inl e \<Rightarrow> (Inl e, self)
      | Inr df \<Rightarrow> transform self df)"

definition encode_congestion_level :: "real \<Rightarrow> real \<Rightarrow> string" where
  "encode_congestion_level speed_kmh max_speed_kmh =
     (let max_speed = (if max_speed_kmh = 0 then 60 else max_speed_kmh);
          speed_ratio = speed_kmh / max_speed
      in if speed_ratio \<ge> 0.7 then ''low''
         else if speed_ratio \<ge> 0.5 then ''moderate''
         else if speed_ratio \<ge> 0.3 then ''high''
         else ''severe'')"


section \<open>model.py\<close>

text \<open>
  The regression estimators (LightGBM, random forest, XGBoost), the train/test split, the
  evaluation metrics, the clock, the database and the configuration are collaborators of the
  code: they are parameters, collected in the record \<open>external\<close>. An estimator object
  is what its \<open>predict\<close> method computes, with its \<open>feature_importances_\<close>
  attribute when it has one.
\<close>

record estimator =
  est_predict :: "matrix \<Rightarrow> real list"
  feature_importances :: "real list option"

datatype hval = HInt int | HReal real | HStr string

type_synonym params = "(string \<times> hval) list"

type_synonym datetime = nat

record metrics_dict =
  mae :: real
  rmse :: real
  r2 :: real
  mape :: real

record settings =
  cfg_model_type :: string
  cfg_model_path :: string
  cfg_feature_scaler_path :: string
  cfg_train_test_split :: real
  cfg_random_state :: int
  cfg_n_estimators :: int
  cfg_max_depth :: int

text \<open>The defaults of config.py.\<close>

definition default_settings :: settings where
  "default_settings =
     \<lparr> cfg_model_type = ''lightgbm'',
       cfg_model_path = ''./models/traffic_model.pkl'',
       cfg_feature_scaler_path = ''./models/scaler.pkl'',
       cfg_train_test_split = 0.2,
       cfg_random_state = 42,
       cfg_n_estimators = 100,
       cfg_max_depth = 10 \<rparr>"

record external =
  settings :: settings
  labeled_rows :: "feature_dict list"
  StandardScaler_fit :: scaler_fit
  train_test_split ::
    "matrix \<Rightarrow> cell list \<Rightarrow> real \<Rightarrow> int \<Rightarrow> matrix \<times> matrix \<times> cell list \<times> cell list"
  create_estimator :: "string \<Rightarrow> params \<Rightarrow> estimator"
  estimator_fit :: "estimator \<Rightarrow> matrix \<Rightarrow> cell list \<Rightarrow> estimator"
  evaluate :: "cell list \<Rightarrow> real list \<Rightarrow> metrics_dict"
  now :: datetime

record TrafficPredictionModel =
  model_type :: string
  model :: "estimator option"
  metrics :: "metrics_dict option"
  trained_at :: "datetime option"
  training_samples :: nat
  test_samples :: nat
  model_version :: string

text \<open>
  The dict that \<open>save\<close> writes with joblib; a field is None when the key is missing
  from the stored dict (for \<open>metrics\<close> and \<open>trained_at\<close> also when None was stored).
\<close>

record model_data =
  md_model :: "estimator option"
  md_model_type :: "string option"
  md_model_version :: "string option"
  md_metrics :: "metrics_dict option"
  md_trained_at :: "datetime option"
  md_training_samples :: "nat option"
  md_test_samples :: "nat option"

text \<open>
  The state outside a model object: the global preprocessor, the files under the model
  paths and under the scaler paths, and the manager's current model.
\<close>

record world =
  preprocessor :: FeaturePreprocessor
  model_files :: "string \<rightharpoonup> model_data"
  scaler_files :: "string \<rightharpoonup> scaler"
  current_model :: "TrafficPredictionModel option"

definition init_model :: "string \<Rightarrow> TrafficPredictionModel" where
  "init_model mt =
     \<lparr> model_type = mt, model = None, metrics = None, trained_at = None,
       training_samples = 0, test_samples = 0, model_version = ''1.0.0'' \<rparr>"

text \<open>\<open>default_params.update(params)\<close>.\<close>

definition dict_update :: "params \<Rightarrow> params \<Rightarrow> params" where
  "dict_update d ps = fold (\<lambda>(k, v). AList.update k v) ps d"

definition create_model ::
  "external \<Rightarrow> TrafficPredictionModel \<Rightarrow> params option
     \<Rightarrow> (py_error + unit) \<times> TrafficPredictionModel" where
  "create_model E self hyperparameters =
     (let ps = (case hyperparameters of None \<Rightarrow> [] | Some h \<Rightarrow> h); S = settings E
      in if model_type self = ''lightgbm'' then
           (Inr (), self\<lparr> model := Some (create_estimator E ''lightgbm''
              (dict_update
                 [(''n_estimators'', HInt (cfg_n_estimators S)),
                  (''max_depth'', HInt (cfg_max_depth S)),
                  (''learning_rate'', HReal 0.1),
                  (''num_leaves'', HInt 31),
                  (''random_state'', HInt (cfg_random_state S)),
                  (''verbose'', HInt (- 1))] ps)) \<rparr>)
         else if model_type self = ''randomforest'' then
           (Inr (), self\<lparr> model := Some (create_estimator E ''randomforest''
              (dict_update
                 [(''n_estimators'', HInt (cfg_n_estimators S)),
                  (''max_depth'', HInt (cfg_max_depth S)),
                  (''random_state'', HInt (cfg_random_state S)),
                  (''n_jobs'', HInt (- 1))] ps)) \<rparr>)
         else if model_type self = ''xgboost'' then
           (Inr (), self\<lparr> model := Some (create_estimator E ''xgboost''
              (dict_update
                 [(''n_estimators'', HInt (cfg_n_estimators S)),
                  (''max_depth'', HInt (cfg_max_depth S)),
                  (''learning_rate'', HReal 0.1),
                  (''random_state'', HInt (cfg_random_state S)),
                  (''tree_method'', HStr ''hist'')] ps)) \<rparr>)
         else (Inl (ValueError ''Unsupported model type''), self))"

definition train ::
  "external \<Rightarrow> TrafficPredictionModel \<Rightarrow> matrix \<Rightarrow> cell list \<Rightarrow> params option
     \<Rightarrow> (py_error + metrics_dict) \<times> TrafficPredictionModel" where
  "train E self X y hyperparameters =
     (case train_test_split E X y (cfg_train_test_split (settings E))
             (cfg_random_state (settings E)) of
        (X_train, X_test, y_train, y_test) \<Rightarrow>
          (let self1 = self\<lparr> training_samples := length X_train,
                              test_samples := length X_test \<rparr>
           in case create_model E self1 hyperparameters of
                (Inl e, self2) \<Rightarrow> (Inl e, self2)
              | (Inr _, self2) \<Rightarrow>
                  (case model self2 of
                     None \<Rightarrow> (Inl (TypeError ''no estimator''), self2)
                   | Some est \<Rightarrow>
                       (let est' = estimator_fit E est X_train y_train;
                            y_pred = est_predict est' X_test;
                            ms = evaluate E y_test y_pred
                        in (Inr ms, self2\<lparr> model := Some est', metrics := Some ms,
                                             trained_at := Some (now E) \<rparr>)))))"

definition predict :: "TrafficPredictionModel \<Rightarrow> matrix \<Rightarrow> py_error + real list" where
  "predict self X =
     (case model self of
        None \<Rightarrow> Inl (ValueError ''Model not trained or loaded'')
      | Some est \<Rightarrow> Inr (map (\<lambda>p. max p 0) (est_predict est X)))"


text \<open>\<open>model_path or settings.model_path\<close>, and \<open>model_type or
  settings.model_type\<close>: None and the empty string give the configured value.\<close>

definition or_default :: "string option \<Rightarrow> string \<Rightarrow> string" where
  "or_default given d = (case given of None \<Rightarrow> d | Some p \<Rightarrow> if p = [] then d else p)"

definition save ::
  "external \<Rightarrow> TrafficPredictionModel \<Rightarrow> world \<Rightarrow> string option \<Rightarrow> (py_error + unit) \<times> world" where
  "save E self w model_path =
     (case model self of
        None \<Rightarrow> (Inl (ValueError ''No model to save''), w)
      | Some est \<Rightarrow>
          (let path = or_default model_path (cfg_model_path (settings E));
               md = \<lparr> md_model = Some est,
                      md_model_type = Some (model_type self),
                      md_model_version = Some (model_version self),
                      md_metrics = metrics self,
                      md_trained_at = trained_at self,
                      md_training_samples = Some (training_samples self),
                      md_test_samples = Some (test_samples self) \<rparr>;
               w1 = w\<lparr> model_files := (model_files w)(path \<mapsto> md) \<rparr>;
               scaler_path = cfg_feature_scaler_path (settings E)
           in (Inr (), w1\<lparr> scaler_files :=
                              (scaler_files w1)(scaler_path \<mapsto> scaler (preprocessor w1)) \<rparr>)))"

definition load ::
  "external \<Rightarrow> TrafficPredictionModel \<Rightarrow> world \<Rightarrow> string option
     \<Rightarrow> (py_error + unit) \<times> TrafficPredictionModel \<times> world" where
  "load E self w model_path =
     (let path = or_default model_path (cfg_model_path (settings E))
      in case model_files w path of
           None \<Rightarrow> (Inl (FileNotFoundError ''Model not found''), self, w)
         | Some md \<Rightarrow>
             (case md_model md of
                None \<Rightarrow> (Inl (KeyError ''model''), self, w)
              | Some est \<Rightarrow>
                  (let self' = self\<lparr>
                         model := Some est,
                         model_type := (case md_model_type md of None \<Rightarrow> ''unknown'' | Some t \<Rightarrow> t),
                         model_version :=
                           (case md_model_version md of None \<Rightarrow> ''1.0.0'' | Some v \<Rightarrow> v),
                         metrics := md_metrics md,
                         trained_at := md_trained_at md,
                         training_samples :=
                           (case md_training_samples md of None \<Rightarrow> 0 | Some n \<Rightarrow> n),
                         test_samples :=
                           (case md_test_samples md of None \<Rightarrow> 0 | Some n \<Rightarrow> n) \<rparr>;
                       scaler_path = cfg_feature_scaler_path (settings E)
                   in case scaler_files w scaler_path of
                        Some sc \<Rightarrow>
                          (Inr (), self',
                           w\<lparr> preprocessor :=
                                (preprocessor w)\<lparr> scaler := sc, is_fitted := True \<rparr> \<rparr>)
                      | None \<Rightarrow> (Inr (), self', w))))"

definition is_trained :: "TrafficPredictionModel \<Rightarrow> bool" where
  "is_trained self = (model self \<noteq> None)"

text \<open>
  database.py, \<open>fetch_training_data\<close>: \<open>labeled_rows\<close> is what the query gives
  without a limit (the labeled rows, newest first); a limit that is not None or 0 adds
  \<open>LIMIT\<close>, which the database refuses when it is negative.
\<close>

definition fetch_training_data :: "external \<Rightarrow> int option \<Rightarrow> py_error + feature_dict list" where
  "fetch_training_data E limit =
     (case limit of
        None \<Rightarrow> Inr (labeled_rows E)
      | Some n \<Rightarrow>
          if n = 0 then Inr (labeled_rows E)
          else if n < 0 then Inl (DatabaseError ''LIMIT must not be negative'')
          else Inr (take (nat n) (labeled_rows E)))"

definition train_new_model ::
  "external \<Rightarrow> world \<Rightarrow> string option \<Rightarrow> params option \<Rightarrow> int option
     \<Rightarrow> (py_error + TrafficPredictionModel \<times> metrics_dict) \<times> world" where
  "train_new_model E w mt hyperparameters data_limit =
     (case fetch_training_data E data_limit of
        Inl e \<Rightarrow> (Inl e, w)
      | Inr training_data \<Rightarrow>
          if length training_data < 10 then (Inl (ValueError ''Insufficient training data''), w)
          else
            (case prepare_training_data (StandardScaler_fit E) (preprocessor w) training_data of
               (Inl e, pp) \<Rightarrow> (Inl e, w\<lparr> preprocessor := pp \<rparr>)
             | (Inr (X, y), pp) \<Rightarrow>
                 (let w1 = w\<lparr> preprocessor := pp \<rparr>;
                      mt' = or_default mt (cfg_model_type (settings E))
                  in case train E (init_model mt') X y hyperparameters of
                       (Inl e, m) \<Rightarrow> (Inl e, w1)
                     | (Inr ms, m) \<Rightarrow>
                         (case save E m w1 None of
                            (Inl e, w2) \<Rightarrow> (Inl e, w2)
                          | (Inr _, w2) \<Rightarrow>
                              (Inr (m, ms), w2\<lparr> current_model := Some m \<rparr>)))))"

definition load_model ::
  "external \<Rightarrow> world \<Rightarrow> string option \<Rightarrow> (py_error + TrafficPredictionModel) \<times> world" where
  "load_model E w model_path =
     (case load E (init_model ''lightgbm'') w model_path of
        (Inl e, m, w') \<Rightarrow> (Inl e, w')
      | (Inr _, m, w') \<Rightarrow> (Inr m, w'\<lparr> current_model := Some m \<rparr>))"

definition get_model :: "world \<Rightarrow> TrafficPredictionModel option" where
  "get_model w = current_model w"

text \<open>\<open>ModelManager.predict\<close>.\<close>

definition manager_predict ::
  "world \<Rightarrow> feature_dict \<Rightarrow> (py_error + real \<times> string) \<times> world" where
  "manager_predict w features =
     (case current_model w of
        None \<Rightarrow> (Inl (ValueError ''No model loaded''), w)
      | Some m \<Rightarrow>
          (case prepare_prediction_features (preprocessor w) features of
             (Inl e, pp) \<Rightarrow> (Inl e, w\<lparr> preprocessor := pp \<rparr>)
           | (Inr X, pp) \<Rightarrow>
               (let w1 = w\<lparr> preprocessor := pp \<rparr>
                in case predict m X of
                     Inl e \<Rightarrow> (Inl e, w1)
                   | Inr [] \<Rightarrow> (Inl (IndexError ''index 0 is out of bounds''), w1)
                   | Inr (speed_pred # _) \<Rightarrow>
                       (case (case map_of features ''max_speed_kmh'' of
                                None \<Rightarrow> Num 60 | Some v \<Rightarrow> v) of
                          Null \<Rightarrow> (Inl (TypeError ''unsupported operand''), w1)
                        | Num max_speed \<Rightarrow>
                            (Inr (speed_pred, encode_congestion_level speed_pred max_speed), w1)
                        | Bool b \<Rightarrow>
                            (Inr (speed_pred,
                                  encode_congestion_level speed_pred (if b then 1 else 0)),
                             w1)))))"

section \<open>The matrix that feature preparation builds\<close>

text \<open>
  What \<open>prepare_features\<close> is to produce, cell by cell, in the words of the
  specification: a feature that no record of the batch names is 0; in a boolean column the
  value is coerced with \<open>as_int\<close>; a null value is replaced by the default that the
  table \<open>numeric_fills\<close> has for the feature (the batch median for
  \<open>avg_speed_historical\<close>) and stays null when the table has none; any other value
  is kept. \<open>features_without_default\<close> lists the features of \<open>FEATURE_ORDER\<close>
  that the table does not mention.
\<close>

definition as_int :: "cell \<Rightarrow> cell" where
  "as_int c = (case c of Bool b \<Rightarrow> Num (if b then 1 else 0) | Num x \<Rightarrow> Num (trunc x) | Null \<Rightarrow> Null)"

definition default_value :: "feature_dict list \<Rightarrow> string \<Rightarrow> cell" where
  "default_value data f =
     (case map_of (numeric_fills (DataFrame data)) f of None \<Rightarrow> Null | Some d \<Rightarrow> d)"

definition expected_cell :: "feature_dict list \<Rightarrow> string \<Rightarrow> feature_dict \<Rightarrow> cell" where
  "expected_cell data f r =
     (if f \<notin> set (batch_keys data) then Num 0
      else let v = (if f \<in> set bool_columns then as_int (lookup_cell r f) else lookup_cell r f)
           in if v = Null then default_value data f else v)"

definition expected_frame :: "feature_dict list \<Rightarrow> dataframe" where
  "expected_frame data =
     \<lparr> nrows = length data,
       columns = map (\<lambda>f. (f, map (expected_cell data f) data)) FEATURE_ORDER \<rparr>"


section \<open>Example inputs\<close>

text \<open>
  Concrete collaborators and states on which the model is run: a scaler fit that centres
  each column on the mean of the fitted column, an estimator with a fixed output, a data
  source with five labeled rows, and a disk that holds a model file and no scaler file.
\<close>

definition column_mean :: "cell list \<Rightarrow> real" where
  "column_mean col =
     (let xs = List.map_filter cell_to_float col
      in if xs = [] then 0 else sum_list xs / real (length xs))"

definition centering_fit :: scaler_fit where
  "centering_fit s X =
     \<lparr> sc_transform = (\<lambda>Y. map (\<lambda>row. map (\<lambda>(m, c). case cell_to_float c of
                                                           None \<Rightarrow> Null
                                                         | Some x \<Rightarrow> Num (x - m))
                                         (zip (map (\<lambda>(n, col). column_mean col) (columns X)) row))
                              (values_of Y)) \<rparr>"

definition unfitted_preprocessor :: FeaturePreprocessor where
  "unfitted_preprocessor = \<lparr> scaler = \<lparr> sc_transform = (\<lambda>Y. []) \<rparr>, is_fitted = False \<rparr>"

definition example_estimator :: estimator where
  "example_estimator = \<lparr> est_predict = (\<lambda>X. [- 3, 5]), feature_importances = None \<rparr>"

definition example_external :: external where
  "example_external =
     \<lparr> settings = default_settings,
       labeled_rows = replicate 5 [(''target_speed_kmh'', Num 40), (''lanes'', Num 2)],
       StandardScaler_fit = centering_fit,
       train_test_split = (\<lambda>X y frac seed. (X, [], y, [])),
       create_estimator = (\<lambda>kind ps. example_estimator),
       estimator_fit = (\<lambda>est X y. est),
       evaluate = (\<lambda>y p. \<lparr> mae = 0, rmse = 0, r2 = 1, mape = 0 \<rparr>),
       now = 0 \<rparr>"

definition example_model_data :: model_data where
  "example_model_data =
     \<lparr> md_model = Some example_estimator, md_model_type = Some ''lightgbm'',
       md_model_version = Some ''1.0.0'', md_metrics = None, md_trained_at = Some 7,
       md_training_samples = Some 80, md_test_samples = Some 20 \<rparr>"

definition empty_world :: world where
  "empty_world =
     \<lparr> preprocessor = unfitted_preprocessor, model_files = Map.empty,
       scaler_files = Map.empty, current_model = None \<rparr>"

definition model_only_world :: world where
  "model_only_world =
     empty_world\<lparr> model_files := [''./models/traffic_model.pkl'' \<mapsto> example_model_data] \<rparr>"

definition two_rows :: "feature_dict list" where
  "two_rows = [[(''target_speed_kmh'', Num 50), (''lanes'', Num 3)], [(''lanes'', Null)]]"


section \<open>Data frames\<close>

lemma get_column_DataFrame:
  "get_column (DataFrame data) c =
     (if c \<in> set (batch_keys data) then Some (map (\<lambda>r. lookup_cell r c) data) else None)"
  by (simp add: get_column_def DataFrame_def map_of_map_restrict restrict_map_def)

lemma nrows_DataFrame: "nrows (DataFrame data) = length data"
  by (simp add: DataFrame_def)

lemma get_column_set_column:
  "get_column (set_column df c v) c' = (if c' = c then Some v else get_column df c')"
  by (simp add: get_column_def set_column_def update_conv')

lemma nrows_set_column: "nrows (set_column df c v) = nrows df"
  by (simp add: set_column_def)

lemma has_column_iff: "has_column df c \<longleftrightarrow> get_column df c \<noteq> None"
  by (simp add: has_column_def get_column_def map_of_eq_None_iff)

lemma astype_int_ok: "Null \<notin> set v \<Longrightarrow> astype_int v = Inr (map as_int v)"
proof (induction v)
  case Nil
  then show ?case by simp
next
  case (Cons x xs)
  then show ?case by (cases x) (simp_all add: as_int_def)
qed

lemma astype_int_null:
  "Null \<in> set v \<Longrightarrow> astype_int v = Inl (ValueError ''cannot convert null to integer'')"
proof (induction v)
  case Nil
  then show ?case by simp
next
  case (Cons x xs)
  then show ?case by (cases x) (auto split: sum.splits)
qed

lemma convert_bool_columns_ok:
  assumes "distinct cs"
      and "\<forall>c \<in> set cs. \<forall>v. get_column df c = Some v \<longrightarrow> Null \<notin> set v"
  shows "\<exists>df'. convert_bool_columns cs df = Inr df' \<and> nrows df' = nrows df
           \<and> (\<forall>c. get_column df' c =
                 (if c \<in> set cs then map_option (map as_int) (get_column df c)
                  else get_column df c))"
  using assms
proof (induction cs arbitrary: df)
  case Nil
  then show ?case by simp
next
  case (Cons a cs)
  show ?case
  proof (cases "get_column df a")
    case None
    from Cons.prems have "distinct cs"
      and "\<forall>c \<in> set cs. \<forall>v. get_column df c = Some v \<longrightarrow> Null \<notin> set v" by auto
    from Cons.IH [OF this] obtain df' where
      d: "convert_bool_columns cs df = Inr df'" "nrows df' = nrows df"
         "\<forall>c. get_column df' c =
                 (if c \<in> set cs then map_option (map as_int) (get_column df c)
                  else get_column df c)" by blast
    with None show ?thesis by simp
  next
    case (Some v)
    with Cons.prems have nn: "Null \<notin> set v" by simp
    let ?df1 = "set_column df a (map as_int v)"
    from Cons.prems have dc: "distinct cs" and an: "a \<notin> set cs" by auto
    have "\<forall>c \<in> set cs. \<forall>u. get_column ?df1 c = Some u \<longrightarrow> Null \<notin> set u"
      using Cons.prems an by (auto simp: get_column_set_column)
    from Cons.IH [OF dc this] obtain df' where
      d: "convert_bool_columns cs ?df1 = Inr df'" "nrows df' = nrows ?df1"
         "\<forall>c. get_column df' c =
                 (if c \<in> set cs then map_option (map as_int) (get_column ?df1 c)
                  else get_column ?df1 c)" by blast
    have "convert_bool_columns (a # cs) df = Inr df'"
      using Some nn d(1) by (simp add: astype_int_ok)
    moreover have "nrows df' = nrows df" using d(2) by (simp add: nrows_set_column)
    moreover have "\<forall>c. get_column df' c =
                 (if c \<in> set (a # cs) then map_option (map as_int) (get_column df c)
                  else get_column df c)"
      using d(3) an Some by (auto simp: get_column_set_column)
    ultimately show ?thesis by blast
  qed
qed

lemma convert_bool_columns_null:
  assumes "c \<in> set cs" and "get_column df c = Some v" and "Null \<in> set v"
      and "distinct cs"
  shows "convert_bool_columns cs df = Inl (ValueError ''cannot convert null to integer'')"
  using assms
proof (induction cs arbitrary: df)
  case Nil
  then show ?case by simp
next
  case (Cons a cs)
  show ?case
  proof (cases "a = c")
    case True
    with Cons.prems show ?thesis by (simp add: astype_int_null)
  next
    case False
    with Cons.prems have cin: "c \<in> set cs" and dc: "distinct cs" by auto
    show ?thesis
    proof (cases "get_column df a")
      case None
      with Cons.IH [OF cin Cons.prems(2) Cons.prems(3) dc] show ?thesis by simp
    next
      case (Some u)
      show ?thesis
      proof (cases "Null \<in> set u")
        case True
        with Some show ?thesis by (simp add: astype_int_null)
      next
        case nn: False
        have "get_column (set_column df a (map as_int u)) c = Some v"
          using False Cons.prems(2) by (simp add: get_column_set_column)
        from Cons.IH [OF cin this Cons.prems(3) dc] Some nn show ?thesis
          by (simp add: astype_int_ok)
      qed
    qed
  qed
qed

lemma fill_columns_spec:
  assumes "distinct (map fst fills)"
  shows "nrows (fill_columns fills df) = nrows df
       \<and> (\<forall>c. get_column (fill_columns fills df) c =
             (case map_of fills c of
                None \<Rightarrow> get_column df c
              | Some fv \<Rightarrow> map_option (\<lambda>col. fillna col fv) (get_column df c)))"
  using assms
proof (induction fills arbitrary: df)
  case Nil
  then show ?case by simp
next
  case (Cons p fills)
  obtain a fv where p: "p = (a, fv)" by (cases p)
  from Cons.prems p have d: "distinct (map fst fills)" and an: "a \<notin> fst ` set fills" by auto
  from an have mn: "map_of fills a = None" by (simp add: map_of_eq_None_iff)
  show ?case
  proof (cases "get_column df a")
    case None
    with Cons.IH [OF d, of df] p mn show ?thesis by (auto split: option.splits)
  next
    case (Some v)
    with Cons.IH [OF d, of "set_column df a (fillna v fv)"] p mn show ?thesis
      by (auto simp: get_column_set_column nrows_set_column split: option.splits)
  qed
qed

lemma ensure_features_spec:
  "nrows (ensure_features fs df) = nrows df
   \<and> (\<forall>c. get_column (ensure_features fs df) c =
         (if c \<in> set fs \<and> get_column df c = None then Some (replicate (nrows df) (Num 0))
          else get_column df c))"
proof (induction fs arbitrary: df)
  case Nil
  then show ?case by simp
next
  case (Cons f fs)
  show ?case
  proof (cases "has_column df f")
    case True
    with Cons.IH [of df] show ?thesis by (auto simp: has_column_iff)
  next
    case False
    with Cons.IH [of "set_column df f (replicate (nrows df) (Num 0))"] show ?thesis
      by (auto simp: has_column_iff get_column_set_column nrows_set_column)
  qed
qed

lemma select_columns_spec:
  "\<forall>f \<in> set fs. get_column df f = Some (g f) \<Longrightarrow>
   select_columns df fs = Inr (map (\<lambda>f. (f, g f)) fs)"
  by (induction fs) auto


lemma distinct_bool_columns: "distinct bool_columns"
  by (simp add: bool_columns_def)

lemma distinct_numeric_fills: "distinct (map fst (numeric_fills df))"
  by (simp add: numeric_fills_def)

lemma avg_not_bool: "''avg_speed_historical'' \<notin> set bool_columns"
  by (simp add: bool_columns_def)

lemma numeric_fills_cong:
  "get_column df ''avg_speed_historical'' = get_column df' ''avg_speed_historical''
   \<Longrightarrow> numeric_fills df = numeric_fills df'"
  by (simp add: numeric_fills_def)

lemma prepare_features_null_bool:
  assumes "c \<in> set bool_columns" and "c \<in> set (batch_keys data)"
      and "r \<in> set data" and "lookup_cell r c = Null"
  shows "prepare_features data = Inl (ValueError ''cannot convert null to integer'')"
proof -
  have g: "get_column (DataFrame data) c = Some (map (\<lambda>r. lookup_cell r c) data)"
    using assms(2) by (simp add: get_column_DataFrame)
  have "Null \<in> set (map (\<lambda>r. lookup_cell r c) data)"
    using assms(3,4) by force
  from convert_bool_columns_null [OF assms(1) g this distinct_bool_columns]
  show ?thesis by (simp add: prepare_features_def)
qed

lemma prepare_features_expected:
  assumes ok: "\<forall>c \<in> set bool_columns. c \<in> set (batch_keys data)
                 \<longrightarrow> (\<forall>r \<in> set data. lookup_cell r c \<noteq> Null)"
  shows "prepare_features data = Inr (expected_frame data)"
proof -
  let ?df0 = "DataFrame data"
  have "\<forall>c \<in> set bool_columns. \<forall>v. get_column ?df0 c = Some v \<longrightarrow> Null \<notin> set v"
  proof (intro ballI allI impI)
    fix c v
    assume c: "c \<in> set bool_columns" and v: "get_column ?df0 c = Some v"
    from v have k: "c \<in> set (batch_keys data)" and "v = map (\<lambda>r. lookup_cell r c) data"
      by (auto simp: get_column_DataFrame split: if_splits)
    moreover from ok c k have "\<forall>r \<in> set data. lookup_cell r c \<noteq> Null" by blast
    ultimately show "Null \<notin> set v" by (metis (mono_tags, lifting) imageE list.set_map)
  qed
  from convert_bool_columns_ok [OF distinct_bool_columns this] obtain df1 where
    c1: "convert_bool_columns bool_columns ?df0 = Inr df1"
    and n1: "nrows df1 = nrows ?df0"
    and g1: "\<And>c. get_column df1 c =
                 (if c \<in> set bool_columns then map_option (map as_int) (get_column ?df0 c)
                  else get_column ?df0 c)" by blast
  have nf: "numeric_fills df1 = numeric_fills ?df0"
    by (rule numeric_fills_cong) (simp add: g1 avg_not_bool)
  let ?df2 = "fill_missing_values df1"
  have n2: "nrows ?df2 = length data"
    using fill_columns_spec [OF distinct_numeric_fills, of df1 df1] n1
    by (simp add: fill_missing_values_def nrows_DataFrame)
  have g2: "get_column ?df2 c =
             (case map_of (numeric_fills ?df0) c of
                None \<Rightarrow> get_column df1 c
              | Some fv \<Rightarrow> map_option (\<lambda>col. fillna col fv) (get_column df1 c))" for c
    using fill_columns_spec [OF distinct_numeric_fills, of df1 df1] nf
    by (simp add: fill_missing_values_def)
  let ?df3 = "ensure_features FEATURE_ORDER ?df2"
  have n3: "nrows ?df3 = length data"
    using ensure_features_spec [of FEATURE_ORDER ?df2] n2 by simp
  have g3: "get_column ?df3 c =
         (if c \<in> set FEATURE_ORDER \<and> get_column ?df2 c = None
          then Some (replicate (length data) (Num 0))
          else get_column ?df2 c)" for c
    using ensure_features_spec [of FEATURE_ORDER ?df2] n2 by simp
  have col: "get_column ?df3 f = Some (map (expected_cell data f) data)"
    if f: "f \<in> set FEATURE_ORDER" for f
  proof (cases "f \<in> set (batch_keys data)")
    case False
    then have "get_column df1 f = None" by (simp add: g1 get_column_DataFrame)
    then have "get_column ?df2 f = None" by (simp add: g2 split: option.splits)
    moreover have "expected_cell data f = (\<lambda>r. Num 0)"
      using False by (simp add: expected_cell_def fun_eq_iff)
    then have "map (expected_cell data f) data = replicate (length data) (Num 0)"
      by (simp add: map_replicate_const)
    ultimately show ?thesis using f by (simp add: g3)
  next
    case True
    let ?col1 = "map (\<lambda>r. if f \<in> set bool_columns then as_int (lookup_cell r f)
                           else lookup_cell r f) data"
    from True have e1: "get_column df1 f = Some ?col1"
      by (simp add: g1 get_column_DataFrame)
    show ?thesis
    proof (cases "map_of (numeric_fills ?df0) f")
      case None
      with e1 have "get_column ?df2 f = Some ?col1" by (simp add: g2)
      then have "get_column ?df3 f = Some ?col1" by (simp add: g3)
      moreover have "?col1 = map (expected_cell data f) data"
        using True None by (simp add: expected_cell_def default_value_def Let_def)
      ultimately show ?thesis by simp
    next
      case (Some fv)
      with e1 have "get_column ?df2 f = Some (fillna ?col1 fv)" by (simp add: g2)
      then have "get_column ?df3 f = Some (fillna ?col1 fv)" by (simp add: g3)
      moreover have "fillna ?col1 fv = map (expected_cell data f) data"
        using True Some by (simp add: expected_cell_def default_value_def Let_def fillna_def)
      ultimately show ?thesis by simp
    qed
  qed
  then have "select_columns ?df3 FEATURE_ORDER
               = Inr (map (\<lambda>f. (f, map (expected_cell data f) data)) FEATURE_ORDER)"
    by (intro select_columns_spec) simp
  with c1 n3 show ?thesis
    by (simp add: prepare_features_def expected_frame_def Let_def)
qed







lemma set_batch_keys: "set (batch_keys data) = (\<Union>r \<in> set data. fst ` set r)"
  by (simp add: batch_keys_def first_seen_def)


section \<open>Feature preparation\<close>








section \<open>Congestion levels\<close>





section \<open>Training data\<close>

text \<open>
  Claim C3, as amended. \<open>prepare_training_data\<close> fails with the ValueError
  "Training data must contain target_speed_kmh" when no record of the batch has the key
  \<open>target_speed_kmh\<close>, leaving the preprocessor as it was. When some record has the
  key and \<open>prepare_features\<close> succeeds, it returns (X, y) where X is
  \<open>fit_transform\<close> of the prepared features and y is the raw column of the targets,
  null for a record without one; the preprocessor is the one \<open>fit_transform\<close> leaves.
\<close>

theorem prepare_training_data_target_column:
  "(''target_speed_kmh'' \<notin> set (batch_keys unlabeled) \<longrightarrow>
      prepare_training_data fit self unlabeled
        = (Inl (ValueError ''Training data must contain target_speed_kmh''), self))
   \<and> (''target_speed_kmh'' \<in> set (batch_keys data) \<and> prepare_features data = Inr X_df
        \<and> fit_transform fit self X_df = (Inr X, self') \<longrightarrow>
      prepare_training_data fit self data
        = (Inr (X, map (\<lambda>r. lookup_cell r ''target_speed_kmh'') data), self'))"
  by (simp add: prepare_training_data_def get_column_DataFrame Let_def)

lemma two_rows_keys: "''target_speed_kmh'' \<in> set (batch_keys two_rows)"
  by code_simp

lemma unlabeled_keys: "''target_speed_kmh'' \<notin> set (batch_keys [[(''lanes'', Num 2)]])"
  by code_simp

lemma two_rows_features: "prepare_features two_rows = Inr (expected_frame two_rows)"
  by (rule prepare_features_expected) code_simp

text \<open>
  Both cases of C3: a batch without any target, and a batch of two records of which the
  first has a target.
\<close>

theorem prepare_training_data_target_column_witness:
  "''target_speed_kmh'' \<notin> set (batch_keys [[(''lanes'', Num 2)]])
   \<and> prepare_training_data centering_fit unfitted_preprocessor [[(''lanes'', Num 2)]]
       = (Inl (ValueError ''Training data must contain target_speed_kmh''), unfitted_preprocessor)
   \<and> ''target_speed_kmh'' \<in> set (batch_keys two_rows)
   \<and> prepare_features two_rows = Inr (expected_frame two_rows)
   \<and> prepare_training_data centering_fit unfitted_preprocessor two_rows
       = (Inr (projr (fst (fit_transform centering_fit unfitted_preprocessor
                             (expected_frame two_rows))),
               map (\<lambda>r. lookup_cell r ''target_speed_kmh'') two_rows),
          snd (fit_transform centering_fit unfitted_preprocessor (expected_frame two_rows)))"
proof -
  have ft: "fit_transform centering_fit unfitted_preprocessor (expected_frame two_rows)
      = (Inr (projr (fst (fit_transform centering_fit unfitted_preprocessor
                            (expected_frame two_rows)))),
         snd (fit_transform centering_fit unfitted_preprocessor (expected_frame two_rows)))"
    by (simp add: fit_transform_def fit_scaler_def transform_def)
  from prepare_training_data_target_column
         [of "[[(''lanes'', Num 2)]]" centering_fit unfitted_preprocessor two_rows
             "expected_frame two_rows"
             "projr (fst (fit_transform centering_fit unfitted_preprocessor
                            (expected_frame two_rows)))"
             "snd (fit_transform centering_fit unfitted_preprocessor (expected_frame two_rows))"]
       unlabeled_keys two_rows_keys two_rows_features ft
  show ?thesis by blast
qed

text \<open>
  C3 as stated fails: the second record of \<open>two_rows\<close> carries no target, and
  \<open>prepare_training_data\<close> still returns, its target vector holding a null.
\<close>

theorem prepare_training_data_partial_target_counterexample:
  "map_of (two_rows ! 1) ''target_speed_kmh'' = None
   \<and> map_sum id snd (fst (prepare_training_data centering_fit unfitted_preprocessor two_rows))
       = Inr [Num 50, Null]"
  by code_simp

section \<open>The model\<close>

text \<open>
  Claim C4. \<open>predict\<close> fails, with the ValueError "Model not trained or
  loaded", exactly when the model has no estimator; otherwise it returns the estimator's
  output with every entry clamped from below by 0, so every predicted speed it returns is
  non-negative.
\<close>

theorem predict_clamped:
  "(predict self X = Inl (ValueError ''Model not trained or loaded'') \<longleftrightarrow> model self = None)
   \<and> (isl (predict self X) \<longleftrightarrow> model self = None)
   \<and> (model self = Some est \<longrightarrow> predict self X = Inr (map (\<lambda>p. max p 0) (est_predict est X)))
   \<and> (predict self X = Inr ps \<longrightarrow> (\<forall>p \<in> set ps. 0 \<le> p))"
  by (auto simp: predict_def split: option.splits)

text \<open>
  C4 on a model whose estimator answers -3 and 5.
\<close>

theorem predict_clamped_witness:
  "model ((init_model ''lightgbm'')\<lparr> model := Some example_estimator \<rparr>) = Some example_estimator
   \<and> predict ((init_model ''lightgbm'')\<lparr> model := Some example_estimator \<rparr>) [[Num 1]] = Inr [0, 5]
   \<and> est_predict example_estimator [[Num 1]] = [- 3, 5]"
  using predict_clamped [of "(init_model ''lightgbm'')\<lparr> model := Some example_estimator \<rparr>"
                           "[[Num 1]]" example_estimator "[0, 5]"]
  by (simp add: example_estimator_def)

text \<open>
  Claim C5. On a preprocessor whose scaler has not been fitted, \<open>transform\<close>
  does not raise: it returns the values of the frame unchanged, and the preprocessor is
  unchanged.
\<close>

theorem transform_unfitted_passthrough:
  "\<not> is_fitted self \<Longrightarrow> transform self X = (Inr (values_of X), self)"
  by (simp add: transform_def)

text \<open>
  C5 on the unfitted preprocessor and a frame of one cell.
\<close>

theorem transform_unfitted_passthrough_witness:
  "\<not> is_fitted unfitted_preprocessor
   \<and> transform unfitted_preprocessor \<lparr> nrows = 1, columns = [(''lanes'', [Num 2])] \<rparr>
       = (Inr [[Num 2]], unfitted_preprocessor)"
proof -
  have h: "\<not> is_fitted unfitted_preprocessor" by (simp add: unfitted_preprocessor_def)
  show ?thesis
    using h transform_unfitted_passthrough [OF h, of "\<lparr> nrows = 1, columns = [(''lanes'', [Num 2])] \<rparr>"]
    by (simp add: values_of_def)
qed


text \<open>
  Claim C7. When the data source yields fewer than 10 labeled records,
  \<open>train_new_model\<close> fails with the ValueError "Insufficient training data" and the
  state is untouched: the preprocessor, the files and the current model are as before.
\<close>

theorem train_new_model_insufficient:
  assumes "fetch_training_data E data_limit = Inr rows" and "length rows < 10"
  shows "train_new_model E w mt hyperparameters data_limit
           = (Inl (ValueError ''Insufficient training data''), w)"
  using assms by (simp add: train_new_model_def)

text \<open>
  C7 with a data source of five labeled rows.
\<close>

theorem train_new_model_insufficient_witness:
  "fetch_training_data example_external None
     = Inr (replicate 5 [(''target_speed_kmh'', Num 40), (''lanes'', Num 2)])
   \<and> length (replicate 5 [(''target_speed_kmh'', Num 40), (''lanes'', Num (2::real))]) = 5
   \<and> train_new_model example_external empty_world None None None
       = (Inl (ValueError ''Insufficient training data''), empty_world)"
proof -
  have f: "fetch_training_data example_external None
     = Inr (replicate 5 [(''target_speed_kmh'', Num 40), (''lanes'', Num 2)])"
    by (simp add: fetch_training_data_def example_external_def)
  have l: "length (replicate 5 [(''target_speed_kmh'', Num 40), (''lanes'', Num (2::real))]) < 10"
    by simp
  show ?thesis
    using f train_new_model_insufficient [OF f l, of empty_world None None] by simp
qed




text \<open>
  Claim C9. \<open>prepare_prediction_features\<close> is \<open>prepare_features\<close> on
  the single record followed by \<open>transform\<close>, and it leaves the preprocessor (the
  scaler and the fitted flag) as it was; so does \<open>ModelManager.predict\<close>, which
  leaves the whole state unchanged.
\<close>

theorem prediction_keeps_scaler_state:
  "snd (prepare_prediction_features self features) = self
   \<and> fst (prepare_prediction_features self features)
       = (case prepare_features [features] of
            Inl e \<Rightarrow> Inl e
          | Inr df \<Rightarrow> fst (transform self df))
   \<and> snd (manager_predict w features) = w"
proof -
  have a: "snd (prepare_prediction_features self' fs) = self'" for self' fs
    by (simp add: prepare_prediction_features_def transform_def split: sum.splits)
  have b: "fst (prepare_prediction_features self features)
       = (case prepare_features [features] of Inl e \<Rightarrow> Inl e | Inr df \<Rightarrow> fst (transform self df))"
    by (simp add: prepare_prediction_features_def split: sum.splits)
  have c: "snd (manager_predict w features) = w"
  proof (cases "prepare_prediction_features (preprocessor w) features")
    case (Pair r pp)
    with a [of "preprocessor w" features] have "pp = preprocessor w" by simp
    with Pair show ?thesis
      by (simp add: manager_predict_def Let_def split: option.splits sum.splits list.splits cell.splits)
  qed
  from a b c show ?thesis by simp
qed

text \<open>
  Claim C10. When the model file exists, holding an estimator, and the scaler file does
  not, \<open>load\<close> succeeds: the model takes the estimator and the metadata of the
  file, and the state, the global preprocessor included, is unchanged. If the preprocessor
  was unfitted, a prediction's features are then the raw prepared values.
\<close>

theorem load_without_scaler_file:
  assumes "model_files w (or_default model_path (cfg_model_path (settings E))) = Some md"
      and "md_model md = Some est"
      and "scaler_files w (cfg_feature_scaler_path (settings E)) = None"
  shows "fst (load E self w model_path) = Inr ()
     \<and> snd (snd (load E self w model_path)) = w
     \<and> model (fst (snd (load E self w model_path))) = Some est
     \<and> metrics (fst (snd (load E self w model_path))) = md_metrics md
     \<and> trained_at (fst (snd (load E self w model_path))) = md_trained_at md
     \<and> model_type (fst (snd (load E self w model_path)))
         = (case md_model_type md of None \<Rightarrow> ''unknown'' | Some t \<Rightarrow> t)
     \<and> model_version (fst (snd (load E self w model_path)))
         = (case md_model_version md of None \<Rightarrow> ''1.0.0'' | Some v \<Rightarrow> v)
     \<and> training_samples (fst (snd (load E self w model_path)))
         = (case md_training_samples md of None \<Rightarrow> 0 | Some n \<Rightarrow> n)
     \<and> test_samples (fst (snd (load E self w model_path)))
         = (case md_test_samples md of None \<Rightarrow> 0 | Some n \<Rightarrow> n)
     \<and> (\<not> is_fitted (preprocessor w) \<longrightarrow>
          fst (prepare_prediction_features
                 (preprocessor (snd (snd (load E self w model_path)))) features)
            = map_sum id values_of (prepare_features [features]))"
  using assms
  by (simp add: load_def Let_def prepare_prediction_features_def transform_def split: sum.splits)

text \<open>
  C10 on a disk that holds a model file under the configured path and no scaler file.
\<close>

theorem load_without_scaler_file_witness:
  "model_files model_only_world (or_default None (cfg_model_path (settings example_external)))
     = Some example_model_data
   \<and> md_model example_model_data = Some example_estimator
   \<and> scaler_files model_only_world (cfg_feature_scaler_path (settings example_external)) = None
   \<and> \<not> is_fitted (preprocessor model_only_world)
   \<and> fst (load example_external (init_model ''lightgbm'') model_only_world None) = Inr ()
   \<and> snd (snd (load example_external (init_model ''lightgbm'') model_only_world None))
       = model_only_world
   \<and> model (fst (snd (load example_external (init_model ''lightgbm'') model_only_world None)))
       = Some example_estimator"
proof -
  have a: "model_files model_only_world (or_default None (cfg_model_path (settings example_external)))
     = Some example_model_data"
    by (simp add: model_only_world_def empty_world_def or_default_def example_external_def
        default_settings_def)
  have b: "md_model example_model_data = Some example_estimator"
    by (simp add: example_model_data_def)
  have c: "scaler_files model_only_world (cfg_feature_scaler_path (settings example_external)) = None"
    by (simp add: model_only_world_def empty_world_def)
  have d: "\<not> is_fitted (preprocessor model_only_world)"
    by (simp add: model_only_world_def empty_world_def unfitted_preprocessor_def)
  show ?thesis
    using a b c d load_without_scaler_file [OF a b c, of "init_model ''lightgbm''" "[]"]
    by simp
qed

end
